theory Spec2Isabelle
  imports Main "HOL-Library.AList"
begin

section \<open>Instance lifecycle and terminal registry of package pwd (pwd/instance.go)\<close>

text \<open>
  The embedding follows \<^verbatim>\<open>pwd/instance.go\<close> function by function. Go strings are byte
  strings, modelled as \<^typ>\<open>string\<close>. A Go \<^verbatim>\<open>error\<close> value is modelled by its message,
  the only part of it the code inspects. A function that can end in a runtime panic
  returns an \<open>outcome\<close>: either the values the Go function returns, or the panic.

  Not modelled: the deferred \<^verbatim>\<open>observeAction\<close> calls (they record the duration of a call
  in a latency metric and never change control flow), the calls to \<^verbatim>\<open>log\<close>, and the
  session mutex taken by \<^verbatim>\<open>InstanceNew\<close> (the model runs one call at a time).
\<close>

subsection \<open>Values\<close>

datatype error = Error string

datatype panic = SliceOutOfRange | IndexOutOfRange

datatype 'a outcome = Return 'a | Panic panic

record InstanceConfig =
  ImageName :: string
  Alias :: string
  Hostname :: string
  ServerCert :: string
  ServerKey :: string
  CACert :: string
  Cert :: string
  Key :: string
  Host :: string

text \<open>\<^verbatim>\<open>docker.CreateContainerOpts\<close>, with the fields \<^verbatim>\<open>InstanceNew\<close> fills in.\<close>

record CreateContainerOpts =
  Image :: string
  SessionId :: string
  PwdIpAddress :: string
  ContainerName :: string
  Hostname :: string
  ServerCert :: string
  ServerKey :: string
  CACert :: string
  Privileged :: bool
  HostFQDN :: string

text \<open>
  \<^verbatim>\<open>types.Instance\<close>, with the fields \<^verbatim>\<open>InstanceNew\<close> assigns. The field \<open>Session\<close> is a
  pointer to the owning session in the source; the model keeps the identity of that
  session, which is what \<^verbatim>\<open>InstanceAttachTerminal\<close> reads through it.
\<close>

record Instance =
  Image :: string
  IP :: string
  SessionId :: string
  Name :: string
  Hostname :: string
  Alias :: string
  Cert :: string
  Key :: string
  ServerCert :: string
  ServerKey :: string
  CACert :: string
  Session :: string
  IsDockerHost :: bool

text \<open>
  \<^verbatim>\<open>types.Session\<close>. The instance map is an association list with unique keys; a nil map
  and an empty map both read as the empty list (\<^verbatim>\<open>InstanceNew\<close> allocates the map before
  it writes to it). A write \<^verbatim>\<open>m[k] = v\<close> is \<^const>\<open>AList.update\<close>.
\<close>

record Session =
  Id' :: string
  PwdIpAddress :: string
  Instances :: "(string \<times> Instance) list"

datatype event =
    INSTANCE_NEW string string string string
  | INSTANCE_DELETE string string
  | INSTANCE_TERMINAL_OUT string string string

text \<open>
  Every call to a collaborator (container engine, storage, event bus, gauges) and every
  goroutine started is appended to a trace, in the order of the source.
\<close>

datatype effect =
    DockerCreateContainer CreateContainerOpts
  | DockerDeleteContainer string
  | DockerCreateAttachConnection string
  | DockerExecAttach string "string list"
  | DockerCopyToContainer string string string
  | StorageInstanceCreate string Instance
  | StorageInstanceDelete string string
  | Emit event
  | SetGauges
  | Go_InstanceAttachTerminal Instance

text \<open>
  A \<^verbatim>\<open>net.Conn\<close>: whether it has been closed, the byte strings written to it, and the
  chunks it will still deliver to a reader before end of stream (\<open>None\<close>: the stream
  never ends). Writing to or reading from a closed connection fails at once.
\<close>

record Conn =
  closed :: bool
  written :: "string list"
  incoming :: "string list option"

text \<open>
  The process state: the package variable \<open>terms\<close> (a map of maps from session id and
  instance name to a connection, here the address of the connection in \<open>conns\<close>), the
  connections, and the trace.
\<close>

record world =
  terms :: "string \<Rightarrow> (string \<Rightarrow> nat option) option"
  conns :: "nat \<Rightarrow> Conn"
  trace :: "effect list"

text \<open>
  The receiver \<^verbatim>\<open>p *pwd\<close>: what its collaborators \<^verbatim>\<open>p.docker\<close> and \<^verbatim>\<open>p.storage\<close> answer.
  \<open>docker_ExecAttach\<close> gives the exit code, the error and the output written to the
  buffer. The record also carries two values of packages that are not part of this
  file: the result of \<^verbatim>\<open>config.GetDindImageName()\<close>, and the writer of
  \<^verbatim>\<open>encoding.Replacement.NewEncoder()\<close> as the sequence of writes it passes on to the
  writer beneath it for the sequence of writes it receives (the transform keeps state
  from one write to the next and passes on bounded pieces, so it is a function of the
  whole sequence and not of one chunk).
\<close>

record pwd =
  docker_CreateContainer :: "CreateContainerOpts \<Rightarrow> string \<times> error option"
  docker_DeleteContainer :: "string \<Rightarrow> error option"
  docker_CreateAttachConnection :: "string \<Rightarrow> nat \<times> error option"
  docker_ExecAttach :: "string \<Rightarrow> string list \<Rightarrow> int \<times> error option \<times> string"
  docker_CopyToContainer :: "string \<Rightarrow> string \<Rightarrow> string \<Rightarrow> error option"
  storage_InstanceCreate :: "string \<Rightarrow> Instance \<Rightarrow> error option"
  storage_InstanceDelete :: "string \<Rightarrow> string \<Rightarrow> error option"
  config_GetDindImageName :: string
  encoder_Writer :: "string list \<Rightarrow> string list"

subsection \<open>Library functions\<close>

text \<open>\<^verbatim>\<open>%d\<close> of a non-negative integer.\<close>

fun decimal :: "nat \<Rightarrow> string" where
  "decimal n =
     (if n < 10 then [''0123456789'' ! n]
      else decimal (n div 10) @ [''0123456789'' ! (n mod 10)])"

declare decimal.simps [simp del]

text \<open>\<^verbatim>\<open>err.Error()\<close>.\<close>

fun Error_msg :: "error \<Rightarrow> string" where
  "Error_msg (Error m) = m"

text \<open>\<^verbatim>\<open>strings.HasPrefix\<close> and \<^verbatim>\<open>strings.Contains\<close>.\<close>

definition HasPrefix :: "string \<Rightarrow> string \<Rightarrow> bool" where
  "HasPrefix s pre = (take (length pre) s = pre)"

fun Contains :: "string \<Rightarrow> string \<Rightarrow> bool" where
  "Contains [] substr = (substr = [])"
| "Contains (c # cs) substr = (HasPrefix (c # cs) substr \<or> Contains cs substr)"

text \<open>\<^verbatim>\<open>strings.Split\<close> for a separator of one byte (the source splits at \<^verbatim>\<open>":"\<close>).\<close>

fun Split :: "string \<Rightarrow> char \<Rightarrow> string list" where
  "Split [] sep = [[]]"
| "Split (c # cs) sep =
     (if c = sep then [] # Split cs sep
      else (c # hd (Split cs sep)) # tl (Split cs sep))"

text \<open>
  \<^verbatim>\<open>strings.TrimSpace\<close>: removes from both ends every character that \<^verbatim>\<open>unicode.IsSpace\<close>
  accepts. On the bytes of a Go string these are the six white-space bytes of ASCII,
  the two-byte encodings of U+0085 and U+00A0, and the three-byte encodings of U+1680,
  U+2000 to U+200A, U+2028, U+2029, U+202F, U+205F and U+3000.
\<close>

definition isSpace1 :: "char \<Rightarrow> bool" where
  "isSpace1 a = (a \<in> set [CHR 0x09, CHR 0x0A, CHR 0x0B, CHR 0x0C, CHR 0x0D, CHR 0x20])"

definition isSpace2 :: "char \<Rightarrow> char \<Rightarrow> bool" where
  "isSpace2 a b = (a = CHR 0xC2 \<and> (b = CHR 0x85 \<or> b = CHR 0xA0))"

definition isSpace3 :: "char \<Rightarrow> char \<Rightarrow> char \<Rightarrow> bool" where
  "isSpace3 a b c =
     ((a = CHR 0xE1 \<and> b = CHR 0x9A \<and> c = CHR 0x80) \<or>
      (a = CHR 0xE2 \<and> b = CHR 0x80 \<and>
         c \<in> set [CHR 0x80, CHR 0x81, CHR 0x82, CHR 0x83, CHR 0x84, CHR 0x85, CHR 0x86,
                   CHR 0x87, CHR 0x88, CHR 0x89, CHR 0x8A, CHR 0xA8, CHR 0xA9, CHR 0xAF]) \<or>
      (a = CHR 0xE2 \<and> b = CHR 0x81 \<and> c = CHR 0x9F) \<or>
      (a = CHR 0xE3 \<and> b = CHR 0x80 \<and> c = CHR 0x80))"

text \<open>The white space at the front of a string.\<close>

fun TrimLeft :: "string \<Rightarrow> string" where
  "TrimLeft (a # b # c # s) =
     (if isSpace1 a then TrimLeft (b # c # s)
      else if isSpace2 a b then TrimLeft (c # s)
      else if isSpace3 a b c then TrimLeft s
      else a # b # c # s)"
| "TrimLeft [a, b] =
     (if isSpace1 a then TrimLeft [b] else if isSpace2 a b then [] else [a, b])"
| "TrimLeft [a] = (if isSpace1 a then [] else [a])"
| "TrimLeft [] = []"

text \<open>
  The white space at the end of a string, on the reversed string: \<open>c\<close> is the last
  byte, \<open>b\<close> the one before it and \<open>a\<close> the one before that.
\<close>

fun TrimRight_rev :: "string \<Rightarrow> string" where
  "TrimRight_rev (c # b # a # s) =
     (if isSpace1 c then TrimRight_rev (b # a # s)
      else if isSpace2 b c then TrimRight_rev (a # s)
      else if isSpace3 a b c then TrimRight_rev s
      else c # b # a # s)"
| "TrimRight_rev [c, b] =
     (if isSpace1 c then TrimRight_rev [b] else if isSpace2 b c then [] else [c, b])"
| "TrimRight_rev [c] = (if isSpace1 c then [] else [c])"
| "TrimRight_rev [] = []"

definition TrimSpace :: "string \<Rightarrow> string" where
  "TrimSpace s = rev (TrimRight_rev (rev (TrimLeft s)))"

text \<open>\<^verbatim>\<open>filepath.IsAbs\<close> on Unix.\<close>

definition IsAbs :: "string \<Rightarrow> bool" where
  "IsAbs path = HasPrefix path ''/''"

text \<open>The slice expression \<^verbatim>\<open>s[:n]\<close>, which panics when \<open>n\<close> exceeds the length of \<open>s\<close>.\<close>

definition slice_to :: "string \<Rightarrow> nat \<Rightarrow> string outcome" where
  "slice_to s n = (if n \<le> length s then Return (take n s) else Panic SliceOutOfRange)"

subsection \<open>Connections and the registry\<close>

definition conn_Close :: "nat \<Rightarrow> world \<Rightarrow> world" where
  "conn_Close c w = w\<lparr>conns := (conns w)(c := (conns w c)\<lparr>closed := True\<rparr>)\<rparr>"

text \<open>\<^verbatim>\<open>conn.Write\<close>; the source ignores the error a closed connection returns.\<close>

definition conn_Write :: "nat \<Rightarrow> string \<Rightarrow> world \<Rightarrow> world" where
  "conn_Write c data w =
     (if closed (conns w c) then w
      else w\<lparr>conns := (conns w)(c := (conns w c)\<lparr>written := written (conns w c) @ [data]\<rparr>)\<rparr>)"

definition getInstanceTermConn ::
  "(string \<Rightarrow> (string \<Rightarrow> nat option) option) \<Rightarrow> string \<Rightarrow> string \<Rightarrow> nat option" where
  "getInstanceTermConn ts sessionId instanceName =
     (case ts sessionId of None \<Rightarrow> None | Some m \<Rightarrow> m instanceName)"

definition emit :: "event \<Rightarrow> world \<Rightarrow> world" where
  "emit e w = w\<lparr>trace := trace w @ [Emit e]\<rparr>"

definition setGauges :: "world \<Rightarrow> world" where
  "setGauges w = w\<lparr>trace := trace w @ [SetGauges]\<rparr>"

definition record_call :: "effect \<Rightarrow> world \<Rightarrow> world" where
  "record_call x w = w\<lparr>trace := trace w @ [x]\<rparr>"

text \<open>
  \<^verbatim>\<open>sessionWriter.Write\<close>: one terminal-output event that carries the bytes written. It
  returns the number of bytes and a nil error, so it never stops the copy.
\<close>

definition sessionWriter_Write :: "string \<Rightarrow> string \<Rightarrow> string \<Rightarrow> world \<Rightarrow> world" where
  "sessionWriter_Write sessionId instanceName bytes w =
     emit (INSTANCE_TERMINAL_OUT sessionId instanceName bytes) w"

text \<open>
  \<^verbatim>\<open>io.Copy(encoder.Writer(sw), conn)\<close>: reads the connection until end of stream or an
  error, hands every chunk to the writer of the encoder, and that writer calls
  \<^verbatim>\<open>sessionWriter.Write\<close> once for every write it passes on. The result is \<open>None\<close> when the
  stream never ends, so that the copy never returns.
\<close>

definition io_Copy :: "pwd \<Rightarrow> string \<Rightarrow> string \<Rightarrow> nat \<Rightarrow> world \<Rightarrow> world option" where
  "io_Copy p sessionId instanceName c w =
     (if closed (conns w c) then Some w
      else case incoming (conns w c) of
             None \<Rightarrow> None
           | Some chunks \<Rightarrow>
               Some (fold (sessionWriter_Write sessionId instanceName) (encoder_Writer p chunks)
                       (w\<lparr>conns := (conns w)(c := (conns w c)\<lparr>incoming := Some []\<rparr>)\<rparr>)))"

text \<open>
  \<^verbatim>\<open>InstanceAttachTerminal\<close>. The result is \<open>None\<close> when the call does not return (the
  copy loop runs forever); the state is then the state after the registration.
\<close>

definition InstanceAttachTerminal ::
  "pwd \<Rightarrow> Instance \<Rightarrow> world \<Rightarrow> error option option \<times> world" where
  "InstanceAttachTerminal p instance w =
     (if getInstanceTermConn (terms w) (SessionId instance) (Name instance) \<noteq> None
      then (Some None, w)
      else
        let (conn, err) = docker_CreateAttachConnection p (Name instance);
            w1 = record_call (DockerCreateAttachConnection (Name instance)) w
        in if err \<noteq> None then (Some err, w1)
           else
             let w2 = (case terms w1 (SessionId instance) of
                         None \<Rightarrow>
                           w1\<lparr>terms := (terms w1)(SessionId instance :=
                                          Some (Map.empty(Name instance \<mapsto> conn)))\<rparr>
                       | Some m \<Rightarrow>
                           w1\<lparr>terms := (terms w1)(SessionId instance :=
                                          Some (m(Name instance \<mapsto> conn)))\<rparr>)
             in case io_Copy p (Session instance) (Name instance) conn w2 of
                  None \<Rightarrow> (None, w2)
                | Some w3 \<Rightarrow> (Some None, w3))"

definition InstanceWriteToTerminal :: "string \<Rightarrow> string \<Rightarrow> string \<Rightarrow> world \<Rightarrow> world" where
  "InstanceWriteToTerminal sessionId instanceName data w =
     (case getInstanceTermConn (terms w) sessionId instanceName of
        None \<Rightarrow> w
      | Some conn \<Rightarrow> if length data > 0 then conn_Write conn data w else w)"

subsection \<open>File upload\<close>

text \<open>
  \<^verbatim>\<open>getInstanceCWD\<close>. \<^verbatim>\<open>strings.Split(...)[1]\<close> is an index expression: it panics when
  the split has a single element.
\<close>

definition getInstanceCWD ::
  "pwd \<Rightarrow> Instance \<Rightarrow> world \<Rightarrow> (string \<times> error option) outcome \<times> world" where
  "getInstanceCWD p instance w =
     (let cmd = [''bash'', ''-c'', ''pwdx $(</var/run/cwd)''];
          (c, err, b) = docker_ExecAttach p (Name instance) cmd;
          w1 = record_call (DockerExecAttach (Name instance) cmd) w
      in if c > 0 then
           (Return ('''', Some (Error (''Error '' @ decimal (nat c) @ '' trying to get CWD''))), w1)
         else if err \<noteq> None then (Return ('''', err), w1)
         else
           let parts = Split b (CHR '':'')
           in if 1 < length parts then (Return (TrimSpace (parts ! 1), None), w1)
              else (Panic IndexOutOfRange, w1))"

text \<open>
  The last step of \<^verbatim>\<open>InstanceUploadFromReader\<close>: the copy into the container at the final
  destination, and the error that wraps a failure of the copy.
\<close>

definition copyFromReader ::
  "pwd \<Rightarrow> Instance \<Rightarrow> string \<Rightarrow> string \<Rightarrow> world \<Rightarrow> error option outcome \<times> world" where
  "copyFromReader p instance fileName finalDest w =
     (let copyErr = docker_CopyToContainer p (Name instance) finalDest fileName;
          w1 = record_call (DockerCopyToContainer (Name instance) finalDest fileName) w
      in case copyErr of
           Some e \<Rightarrow>
             (Return (Some (Error (''Error while uploading file ['' @ fileName @ '']. Error: ''
                                     @ Error_msg e @ [CHR 0x0A]))), w1)
         | None \<Rightarrow> (Return None, w1))"

definition InstanceUploadFromReader ::
  "pwd \<Rightarrow> Instance \<Rightarrow> string \<Rightarrow> string \<Rightarrow> world \<Rightarrow> error option outcome \<times> world" where
  "InstanceUploadFromReader p instance fileName dest w =
     (if IsAbs dest then copyFromReader p instance fileName dest w
      else case getInstanceCWD p instance w of
             (Panic x, w1) \<Rightarrow> (Panic x, w1)
           | (Return (cwd, Some err), w1) \<Rightarrow> (Return (Some err), w1)
           | (Return (cwd, None), w1) \<Rightarrow>
               copyFromReader p instance fileName (cwd @ ''/'' @ dest) w1)"

subsection \<open>Deleting an instance\<close>

text \<open>
  \<^verbatim>\<open>InstanceDelete\<close>. The test on the error of the engine is the one of the source,
  \<^verbatim>\<open>err != nil && !strings.Contains(err.Error(), "No such container")\<close>: the message is
  read only when there is an error.
\<close>

definition InstanceDelete ::
  "pwd \<Rightarrow> Session \<Rightarrow> Instance \<Rightarrow> world \<Rightarrow> error option \<times> world" where
  "InstanceDelete p session instance w =
     (let w1 = (case getInstanceTermConn (terms w) (Id' session) (Name instance) of
                  None \<Rightarrow> w
                | Some conn \<Rightarrow> conn_Close conn w);
          err = docker_DeleteContainer p (Name instance);
          w2 = record_call (DockerDeleteContainer (Name instance)) w1
      in if err \<noteq> None \<and> \<not> Contains (Error_msg (the err)) ''No such container''
         then (err, w2)
         else
           let w3 = emit (INSTANCE_DELETE (Id' session) (Name instance)) w2;
               err2 = storage_InstanceDelete p (Id' session) (Name instance);
               w4 = record_call (StorageInstanceDelete (Id' session) (Name instance)) w3
           in if err2 \<noteq> None then (err2, w4)
              else (None, setGauges w4))"

subsection \<open>Creating an instance\<close>

text \<open>The loop of \<^verbatim>\<open>checkHostnameExists\<close> over the instances of the session.\<close>

fun name_exists :: "(string \<times> Instance) list \<Rightarrow> string \<Rightarrow> bool" where
  "name_exists [] containerName = False"
| "name_exists ((k, instance) # rest) containerName =
     (if Name instance = containerName then True else name_exists rest containerName)"

definition checkHostnameExists :: "pwd \<Rightarrow> Session \<Rightarrow> string \<Rightarrow> bool outcome" where
  "checkHostnameExists p session hostname =
     (case slice_to (Id' session) 8 of
        Panic x \<Rightarrow> Panic x
      | Return prefix \<Rightarrow> Return (name_exists (Instances session) (prefix @ ''_'' @ hostname)))"

definition InstanceAllowedImages :: "pwd \<Rightarrow> string list" where
  "InstanceAllowedImages p =
     [config_GetDindImageName p, ''franela/dind:overlay2-dev'', ''franela/ucp:2.4.1'']"

text \<open>The loop of \<^verbatim>\<open>InstanceNew\<close> over the allowed images.\<close>

fun allow_loop :: "string list \<Rightarrow> string \<Rightarrow> CreateContainerOpts \<Rightarrow> CreateContainerOpts" where
  "allow_loop [] img opts = opts"
| "allow_loop (imageName # rest) img opts =
     (if img = imageName then opts\<lparr>Privileged := True\<rparr> else allow_loop rest img opts)"

text \<open>
  The loop \<^verbatim>\<open>for i := 1; ; i++\<close> of \<^verbatim>\<open>InstanceNew\<close>, entered at \<open>i\<close>. The counter is a Go
  \<^verbatim>\<open>int\<close>; it is modelled as a natural number, since it is bounded by the number of
  instances of the session plus one and so never reaches the wrap-around of 64 bits.
\<close>

function nodeName_loop :: "pwd \<Rightarrow> Session \<Rightarrow> nat \<Rightarrow> string outcome" where
  "nodeName_loop p session i =
     (let nodeName = ''node'' @ decimal i
      in case checkHostnameExists p session nodeName of
           Panic x \<Rightarrow> Panic x
         | Return exists \<Rightarrow>
             if \<not> exists then Return nodeName else nodeName_loop p session (i + 1))"
  by pat_completeness auto

text \<open>
  \<^verbatim>\<open>InstanceNew\<close>, in the blocks of the source: the default image, the allocation of a
  host name, the options of the container with the decision on privilege, the instance
  built after the container was created, and the whole function. The results are the
  values returned (or the panic), the session and the process state.
\<close>

definition default_image :: "pwd \<Rightarrow> InstanceConfig \<Rightarrow> InstanceConfig" where
  "default_image p conf =
     (if ImageName conf = [] then conf\<lparr>ImageName := config_GetDindImageName p\<rparr> else conf)"

definition allocate_hostname ::
  "pwd \<Rightarrow> Session \<Rightarrow> InstanceConfig \<Rightarrow> InstanceConfig outcome" where
  "allocate_hostname p session conf =
     (if InstanceConfig.Hostname conf = [] then
        (case nodeName_loop p session 1 of
           Panic x \<Rightarrow> Panic x
         | Return nodeName \<Rightarrow> Return (conf\<lparr>InstanceConfig.Hostname := nodeName\<rparr>))
      else Return conf)"

definition container_opts ::
  "pwd \<Rightarrow> Session \<Rightarrow> InstanceConfig \<Rightarrow> string \<Rightarrow> CreateContainerOpts" where
  "container_opts p session conf containerName =
     allow_loop (InstanceAllowedImages p) (ImageName conf)
       \<lparr> CreateContainerOpts.Image = ImageName conf,
         CreateContainerOpts.SessionId = Id' session,
         CreateContainerOpts.PwdIpAddress = PwdIpAddress session,
         ContainerName = containerName,
         CreateContainerOpts.Hostname = InstanceConfig.Hostname conf,
         CreateContainerOpts.ServerCert = InstanceConfig.ServerCert conf,
         CreateContainerOpts.ServerKey = InstanceConfig.ServerKey conf,
         CreateContainerOpts.CACert = InstanceConfig.CACert conf,
         Privileged = False,
         HostFQDN = Host conf \<rparr>"

definition new_instance ::
  "Session \<Rightarrow> InstanceConfig \<Rightarrow> CreateContainerOpts \<Rightarrow> string \<Rightarrow> string \<Rightarrow> Instance" where
  "new_instance session conf opts ip containerName =
     \<lparr> Image = CreateContainerOpts.Image opts,
       IP = ip,
       SessionId = Id' session,
       Name = containerName,
       Hostname = InstanceConfig.Hostname conf,
       Alias = InstanceConfig.Alias conf,
       Cert = InstanceConfig.Cert conf,
       Key = InstanceConfig.Key conf,
       ServerCert = InstanceConfig.ServerCert conf,
       ServerKey = InstanceConfig.ServerKey conf,
       CACert = InstanceConfig.CACert conf,
       Session = Id' session,
       IsDockerHost = Privileged opts \<rparr>"

definition InstanceNew ::
  "pwd \<Rightarrow> Session \<Rightarrow> InstanceConfig \<Rightarrow> world \<Rightarrow>
     (Instance option \<times> error option) outcome \<times> Session \<times> world" where
  "InstanceNew p session conf0 w =
     (case allocate_hostname p session (default_image p conf0) of
        Panic x \<Rightarrow> (Panic x, session, w)
      | Return conf \<Rightarrow>
          (case slice_to (Id' session) 8 of
             Panic x \<Rightarrow> (Panic x, session, w)
           | Return prefix \<Rightarrow>
               let containerName = prefix @ ''_'' @ InstanceConfig.Hostname conf;
                   opts = container_opts p session conf containerName;
                   (ip, err) = docker_CreateContainer p opts;
                   w1 = record_call (DockerCreateContainer opts) w
               in if err \<noteq> None then (Return (None, err), session, w1)
                  else
                    let instance = new_instance session conf opts ip containerName;
                        session' = session\<lparr>Instances :=
                                     AList.update (Name instance) instance (Instances session)\<rparr>;
                        w2 = record_call (Go_InstanceAttachTerminal instance) w1;
                        err2 = storage_InstanceCreate p (Id' session) instance;
                        w3 = record_call (StorageInstanceCreate (Id' session) instance) w2
                    in if err2 \<noteq> None then (Return (None, err2), session', w3)
                       else
                         (Return (Some instance, None), session',
                          setGauges
                            (emit (INSTANCE_NEW (Id' session) (Name instance) (IP instance)
                                     (Hostname instance)) w3))))"

text \<open>
  The container name of the \<open>i\<close>-th automatic host name, as \<^verbatim>\<open>checkHostnameExists\<close> builds
  it for a session whose identity has at least eight bytes.
\<close>

definition node_container :: "Session \<Rightarrow> nat \<Rightarrow> string" where
  "node_container session i = take 8 (Id' session) @ ''_'' @ ''node'' @ decimal i"

subsection \<open>Concrete inputs\<close>

text \<open>
  Collaborators that always succeed: the engine creates every container at one address
  and hands out connection 0, the working directory command prints \<^verbatim>\<open>7: /root\<close>.
\<close>

definition example_pwd :: pwd where
  "example_pwd =
     \<lparr> docker_CreateContainer = (\<lambda>opts. (''10.0.0.7'', None)),
       docker_DeleteContainer = (\<lambda>name. None),
       docker_CreateAttachConnection = (\<lambda>name. (0, None)),
       docker_ExecAttach = (\<lambda>name cmd. (0, None, ''7: /root'' @ [CHR 0x0A])),
       docker_CopyToContainer = (\<lambda>name dest fileName. None),
       storage_InstanceCreate = (\<lambda>sessionId instance. None),
       storage_InstanceDelete = (\<lambda>sessionId name. None),
       config_GetDindImageName = ''franela/dind'',
       encoder_Writer = (\<lambda>chunks. chunks) \<rparr>"

definition example_instance :: "string \<Rightarrow> string \<Rightarrow> Instance" where
  "example_instance sessionId hostname =
     \<lparr> Image = ''franela/dind'', IP = ''10.0.0.1'', SessionId = sessionId,
       Name = take 8 sessionId @ ''_'' @ hostname, Hostname = hostname, Alias = [],
       Cert = [], Key = [], ServerCert = [], ServerKey = [], CACert = [],
       Session = sessionId, IsDockerHost = True \<rparr>"

text \<open>A session that holds the instances node1, node2 and node4.\<close>

definition example_session :: Session where
  "example_session =
     \<lparr> Id' = ''aaaabbbbcccc'', PwdIpAddress = ''10.0.0.2'',
       Instances =
         [(''aaaabbbb_node1'', example_instance ''aaaabbbbcccc'' ''node1''),
          (''aaaabbbb_node2'', example_instance ''aaaabbbbcccc'' ''node2''),
          (''aaaabbbb_node4'', example_instance ''aaaabbbbcccc'' ''node4'')] \<rparr>"

text \<open>A session whose identity has three bytes.\<close>

definition short_session :: Session where
  "short_session = \<lparr> Id' = ''abc'', PwdIpAddress = ''10.0.0.2'', Instances = [] \<rparr>"

text \<open>A configuration that names neither an image nor a host name.\<close>

definition example_conf :: InstanceConfig where
  "example_conf =
     \<lparr> ImageName = [], InstanceConfig.Alias = [], InstanceConfig.Hostname = [],
       InstanceConfig.ServerCert = [], InstanceConfig.ServerKey = [],
       InstanceConfig.CACert = [], InstanceConfig.Cert = [], InstanceConfig.Key = [],
       Host = [] \<rparr>"

text \<open>A state with an empty registry, open connections and an empty trace.\<close>

definition example_world :: world where
  "example_world =
     \<lparr> terms = (\<lambda>sessionId. None),
       conns = (\<lambda>c. \<lparr> closed = False, written = [], incoming = Some [] \<rparr>),
       trace = [] \<rparr>"

text \<open>The same state with connection 0 registered for the instance node1.\<close>

definition attached_world :: world where
  "attached_world =
     example_world\<lparr>terms := (\<lambda>sessionId. None)(''aaaabbbbcccc'' :=
                                Some (Map.empty(''aaaabbbb_node1'' \<mapsto> 0)))\<rparr>"

text \<open>The instance node1 of the example session.\<close>

definition example_node1 :: Instance where
  "example_node1 = example_instance ''aaaabbbbcccc'' ''node1''"

text \<open>An engine that reports every container as already gone.\<close>

definition gone_pwd :: pwd where
  "gone_pwd =
     example_pwd\<lparr>docker_DeleteContainer :=
       (\<lambda>name. Some (Error ''Error response from daemon: No such container: aaaabbbb_node1''))\<rparr>"

text \<open>The same engine, with a storage that fails to remove the record.\<close>

definition gone_broken_store_pwd :: pwd where
  "gone_broken_store_pwd =
     gone_pwd\<lparr>storage_InstanceDelete := (\<lambda>sessionId name. Some (Error ''storage unavailable''))\<rparr>"

text \<open>An engine whose removal of a container fails for another reason.\<close>

definition engine_down_pwd :: pwd where
  "engine_down_pwd =
     example_pwd\<lparr>docker_DeleteContainer :=
       (\<lambda>name. Some (Error ''Cannot connect to the Docker daemon''))\<rparr>"

text \<open>A storage that fails to persist a new instance.\<close>

definition broken_create_pwd :: pwd where
  "broken_create_pwd =
     example_pwd\<lparr>storage_InstanceCreate :=
       (\<lambda>sessionId created. Some (Error ''storage unavailable''))\<rparr>"

text \<open>
  An engine whose working directory command exits with code 0 and prints a line
  without a colon.
\<close>

definition no_colon_pwd :: pwd where
  "no_colon_pwd =
     example_pwd\<lparr>docker_ExecAttach := (\<lambda>name cmd. (0, None, ''/root'' @ [CHR 0x0A]))\<rparr>"

text \<open>An engine that fails to create a container.\<close>

definition create_fails_pwd :: pwd where
  "create_fails_pwd =
     example_pwd\<lparr>docker_CreateContainer :=
       (\<lambda>opts. ([], Some (Error ''no space left on device'')))\<rparr>"

section \<open>Properties\<close>

subsection \<open>Decimal numerals and the host name loop\<close>

lemma decimal_nonempty: "decimal n \<noteq> []"
  by (subst decimal.simps) simp

lemma digit_inj: "a < 10 \<Longrightarrow> b < 10 \<Longrightarrow> ''0123456789'' ! a = ''0123456789'' ! b \<Longrightarrow> a = b"
proof -
  assume a: "a < 10" and b: "b < 10" and e: "''0123456789'' ! a = ''0123456789'' ! b"
  have d: "distinct ''0123456789''" by simp
  have l: "length ''0123456789'' = 10" by simp
  from d a b e l show "a = b" by (metis nth_eq_iff_index_eq)
qed

lemma decimal_inj: "decimal n = decimal m \<Longrightarrow> n = m"
proof (induction n arbitrary: m rule: decimal.induct)
  case (1 n)
  show ?case
  proof (cases "n < 10")
    case True
    then have dn: "decimal n = [''0123456789'' ! n]" by (subst decimal.simps) simp
    show ?thesis
    proof (cases "m < 10")
      case mt: True
      then have "decimal m = [''0123456789'' ! m]" by (subst decimal.simps) simp
      with dn "1.prems" have "''0123456789'' ! n = ''0123456789'' ! m" by simp
      with True mt show ?thesis by (rule digit_inj)
    next
      case mf: False
      then have "decimal m = decimal (m div 10) @ [''0123456789'' ! (m mod 10)]"
        by (subst decimal.simps) simp
      with dn "1.prems" have "decimal (m div 10) = []" by simp
      then show ?thesis using decimal_nonempty by blast
    qed
  next
    case False
    then have dn: "decimal n = decimal (n div 10) @ [''0123456789'' ! (n mod 10)]"
      by (subst decimal.simps) simp
    show ?thesis
    proof (cases "m < 10")
      case mt: True
      then have "decimal m = [''0123456789'' ! m]" by (subst decimal.simps) simp
      with dn "1.prems" have "decimal (n div 10) = []" by simp
      then show ?thesis using decimal_nonempty by blast
    next
      case mf: False
      then have "decimal m = decimal (m div 10) @ [''0123456789'' ! (m mod 10)]"
        by (subst decimal.simps) simp
      with dn "1.prems" have e1: "decimal (n div 10) = decimal (m div 10)"
        and e2: "''0123456789'' ! (n mod 10) = ''0123456789'' ! (m mod 10)" by simp_all
      from "1.IH" [OF False e1] have q: "n div 10 = m div 10" .
      have "n mod 10 = m mod 10" by (rule digit_inj [OF _ _ e2]) simp_all
      with q show ?thesis by (metis div_mult_mod_eq)
    qed
  qed
qed

lemma name_exists_iff: "name_exists xs c \<longleftrightarrow> c \<in> Name ` snd ` set xs"
  by (induction xs c rule: name_exists.induct) auto

lemma node_container_inj: "inj (node_container session)"
  by (rule injI) (simp add: node_container_def decimal_inj)

lemma finite_used: "finite {j. node_container session j \<in> Name ` snd ` set (Instances session)}"
proof -
  have "finite (node_container session -` (Name ` snd ` set (Instances session)))"
    by (rule finite_vimageI [OF _ node_container_inj]) simp
  then show ?thesis by (simp add: vimage_def)
qed

lemma checkHostnameExists_True:
  "checkHostnameExists p session (''node'' @ decimal i) = Return True \<Longrightarrow>
   node_container session i \<in> Name ` snd ` set (Instances session)"
  by (auto simp: checkHostnameExists_def slice_to_def node_container_def name_exists_iff
      split: if_splits)

termination nodeName_loop
proof (relation "measure (\<lambda>(p, session, i).
         card {j. i \<le> j \<and> node_container session j \<in> Name ` snd ` set (Instances session)})")
  show "wf (measure (\<lambda>(p, session, i).
         card {j. i \<le> j \<and> node_container session j \<in> Name ` snd ` set (Instances session)}))"
    by simp
next
  fix p session i nodeName x2
  assume n: "nodeName = ''node'' @ decimal i"
    and c: "checkHostnameExists p session nodeName = Return x2"
    and x: "\<not> \<not> x2"
  let ?U = "\<lambda>k. {j. k \<le> j \<and> node_container session j \<in> Name ` snd ` set (Instances session)}"
  from n c x have m: "node_container session i \<in> Name ` snd ` set (Instances session)"
    by (simp add: checkHostnameExists_True)
  have fin: "finite (?U i)" using finite_used [of session] by simp
  have "i \<in> ?U i" "i \<notin> ?U (i + 1)" "?U (i + 1) \<subseteq> ?U i" using m by auto
  then have "?U (i + 1) \<subset> ?U i" by blast
  with fin have "card (?U (i + 1)) < card (?U i)" by (rule psubset_card_mono)
  then show "((p, session, i + 1), (p, session, i)) \<in> measure (\<lambda>(p, session, i).
         card {j. i \<le> j \<and> node_container session j \<in> Name ` snd ` set (Instances session)})"
    by simp
qed


declare nodeName_loop.simps [simp del]

lemma checkHostnameExists_ok:
  "8 \<le> length (Id' session) \<Longrightarrow>
   checkHostnameExists p session (''node'' @ decimal i) =
     Return (node_container session i \<in> Name ` snd ` set (Instances session))"
  by (simp add: checkHostnameExists_def slice_to_def node_container_def name_exists_iff)

lemma nodeName_loop_least:
  "8 \<le> length (Id' session) \<Longrightarrow>
   \<exists>N\<ge>i. nodeName_loop p session i = Return (''node'' @ decimal N) \<and>
     node_container session N \<notin> Name ` snd ` set (Instances session) \<and>
     (\<forall>j. i \<le> j \<and> j < N \<longrightarrow>
        node_container session j \<in> Name ` snd ` set (Instances session))"
proof (induction p session i rule: nodeName_loop.induct)
  case (1 p session i)
  let ?names = "Name ` snd ` set (Instances session)"
  have chk: "checkHostnameExists p session (''node'' @ decimal i) =
               Return (node_container session i \<in> ?names)"
    using "1.prems" by (rule checkHostnameExists_ok)
  show ?case
  proof (cases "node_container session i \<in> ?names")
    case False
    with chk have "nodeName_loop p session i = Return (''node'' @ decimal i)"
      by (subst nodeName_loop.simps) simp
    with False show ?thesis by auto
  next
    case True
    with chk have step: "nodeName_loop p session i = nodeName_loop p session (i + 1)"
      by (subst nodeName_loop.simps) simp
    from True chk "1.prems"
    obtain N where N: "i + 1 \<le> N"
      "nodeName_loop p session (i + 1) = Return (''node'' @ decimal N)"
      "node_container session N \<notin> ?names"
      "\<forall>j. i + 1 \<le> j \<and> j < N \<longrightarrow> node_container session j \<in> ?names"
      using "1.IH" [OF refl chk] by auto
    have "\<forall>j. i \<le> j \<and> j < N \<longrightarrow> node_container session j \<in> ?names"
    proof (intro allI impI)
      fix j assume "i \<le> j \<and> j < N"
      then have "j = i \<or> (i + 1 \<le> j \<and> j < N)" by arith
      with True N(4) show "node_container session j \<in> ?names" by blast
    qed
    with N step show ?thesis by (intro exI [of _ N]) simp
  qed
qed

lemma nodeName_loop_panic:
  "length (Id' session) < 8 \<Longrightarrow> nodeName_loop p session i = Panic SliceOutOfRange"
  by (subst nodeName_loop.simps) (simp add: checkHostnameExists_def slice_to_def)

subsection \<open>Building blocks of InstanceNew\<close>

lemma allow_loop_Privileged:
  "Privileged (allow_loop xs img opts) = (Privileged opts \<or> img \<in> set xs)"
  by (induction xs) auto

lemma allow_loop_Image:
  "CreateContainerOpts.Image (allow_loop xs img opts) = CreateContainerOpts.Image opts"
  by (induction xs) auto

lemma allocate_hostname_ImageName:
  "allocate_hostname p session conf = Return conf' \<Longrightarrow> ImageName conf' = ImageName conf"
  by (auto simp: allocate_hostname_def split: if_splits outcome.splits)

lemma default_image_ImageName:
  "ImageName (default_image p conf) =
     (if ImageName conf = [] then config_GetDindImageName p else ImageName conf)"
  by (simp add: default_image_def)

lemma set_update_subset: "set (AList.update k v xs) \<subseteq> insert (k, v) (set xs)"
  by (induction xs) auto

lemma new_instance_IsDockerHost:
  "IsDockerHost (new_instance session conf (container_opts p session conf cn) ip cn) =
     (ImageName conf \<in> set (InstanceAllowedImages p))"
  by (simp add: new_instance_def container_opts_def allow_loop_Privileged)

subsection \<open>The concrete inputs evaluated\<close>

lemma example_loop: "nodeName_loop p example_session 1 = Return ''node3''"
  by (simp add: nodeName_loop.simps decimal.simps checkHostnameExists_def slice_to_def
      example_session_def example_instance_def)

lemma example_slice: "slice_to (Id' example_session) 8 = Return ''aaaabbbb''"
  by (simp add: slice_to_def example_session_def)

lemma example_pwd_create: "docker_CreateContainer example_pwd opts = (''10.0.0.7'', None)"
  by (simp add: example_pwd_def)

lemma example_pwd_store: "storage_InstanceCreate example_pwd sessionId i = None"
  by (simp add: example_pwd_def)

lemma example_node1_Name: "Name example_node1 = ''aaaabbbb_node1''"
  by (simp add: example_node1_def example_instance_def)

lemma example_session_Id: "Id' example_session = ''aaaabbbbcccc''"
  by (simp add: example_session_def)

lemma attached_world_conn:
  "getInstanceTermConn (terms attached_world) ''aaaabbbbcccc'' ''aaaabbbb_node1'' = Some 0"
  by (simp add: attached_world_def getInstanceTermConn_def)

lemma gone_pwd_delete:
  "docker_DeleteContainer gone_pwd name =
     Some (Error ''Error response from daemon: No such container: aaaabbbb_node1'')"
  by (simp add: gone_pwd_def)

lemma gone_message:
  "Contains ''Error response from daemon: No such container: aaaabbbb_node1''
     ''No such container''"
  by (simp add: HasPrefix_def)

lemma down_message: "\<not> Contains ''Cannot connect to the Docker daemon'' ''No such container''"
  by (simp add: HasPrefix_def)

subsection \<open>The process state under the basic operations\<close>

lemma trace_record_call [simp]: "trace (record_call x w) = trace w @ [x]"
  by (simp add: record_call_def)

lemma trace_emit [simp]: "trace (emit e w) = trace w @ [Emit e]"
  by (simp add: emit_def)

lemma trace_setGauges [simp]: "trace (setGauges w) = trace w @ [SetGauges]"
  by (simp add: setGauges_def)

lemma trace_conn_Close [simp]: "trace (conn_Close c w) = trace w"
  by (simp add: conn_Close_def)

lemma terms_record_call [simp]: "terms (record_call x w) = terms w"
  by (simp add: record_call_def)

lemma terms_emit [simp]: "terms (emit e w) = terms w"
  by (simp add: emit_def)

lemma terms_setGauges [simp]: "terms (setGauges w) = terms w"
  by (simp add: setGauges_def)

lemma terms_conn_Close [simp]: "terms (conn_Close c w) = terms w"
  by (simp add: conn_Close_def)

lemma conns_record_call [simp]: "conns (record_call x w) = conns w"
  by (simp add: record_call_def)

lemma conns_emit [simp]: "conns (emit e w) = conns w"
  by (simp add: emit_def)

lemma conns_setGauges [simp]: "conns (setGauges w) = conns w"
  by (simp add: setGauges_def)

lemma closed_conn_Close [simp]: "closed (conns (conn_Close c w) c)"
  by (simp add: conn_Close_def)

lemma InstanceDelete_terms: "terms (snd (InstanceDelete p session i w)) = terms w"
  by (simp add: InstanceDelete_def Let_def split: option.splits)

lemma InstanceDelete_conns:
  "conns (snd (InstanceDelete p session i w)) =
     (case getInstanceTermConn (terms w) (Id' session) (Name i) of
        None \<Rightarrow> conns w
      | Some c \<Rightarrow> conns (conn_Close c w))"
  by (simp add: InstanceDelete_def Let_def split: option.splits)

lemma sessionWriter_Write_terms:
  "terms (fold (sessionWriter_Write sid n) writes w) = terms w"
  by (induction writes arbitrary: w) (simp_all add: sessionWriter_Write_def)

lemma sessionWriter_Write_trace:
  "trace (fold (sessionWriter_Write sid n) writes w) =
     trace w @ map (\<lambda>bytes. Emit (INSTANCE_TERMINAL_OUT sid n bytes)) writes"
  by (induction writes arbitrary: w) (simp_all add: sessionWriter_Write_def)

lemma io_Copy_terms: "io_Copy p sid n c w = Some w' \<Longrightarrow> terms w' = terms w"
  by (auto simp: io_Copy_def sessionWriter_Write_terms split: if_splits option.splits)

lemma io_Copy_trace:
  "io_Copy p sid n c w = Some w' \<Longrightarrow>
   [x \<leftarrow> trace w'. x = DockerCreateAttachConnection m] =
   [x \<leftarrow> trace w. x = DockerCreateAttachConnection m]"
  by (auto simp: io_Copy_def sessionWriter_Write_trace filter_empty_conv
      split: if_splits option.splits)

lemma attach_registered:
  "InstanceAttachTerminal p i w = (r, w1) \<Longrightarrow> \<forall>e. r \<noteq> Some (Some e) \<Longrightarrow>
   getInstanceTermConn (terms w1) (SessionId i) (Name i) \<noteq> None"
  by (auto simp: InstanceAttachTerminal_def Let_def getInstanceTermConn_def
      split: if_splits prod.splits option.splits dest!: io_Copy_terms)

lemma attach_noop:
  "getInstanceTermConn (terms w) (SessionId i) (Name i) \<noteq> None \<Longrightarrow>
   InstanceAttachTerminal p i w = (Some None, w)"
  by (simp add: InstanceAttachTerminal_def)

lemma attach_one_connection:
  "InstanceAttachTerminal p i w = (r, w1) \<Longrightarrow>
   length [x \<leftarrow> trace w1. x = DockerCreateAttachConnection (Name i)] \<le>
   Suc (length [x \<leftarrow> trace w. x = DockerCreateAttachConnection (Name i)])"
  by (auto simp: InstanceAttachTerminal_def Let_def
      split: if_splits prod.splits option.splits dest!: io_Copy_trace [where m = "Name i"])

lemma conn_Write_closed: "closed (conns w c) \<Longrightarrow> conn_Write c d w = w"
  by (simp add: conn_Write_def)

subsection \<open>The working directory of an instance\<close>

lemma Split_no_separator: "sep \<notin> set s \<Longrightarrow> Split s sep = [s]"
  by (induction s) auto

lemma getInstanceCWD_no_colon:
  assumes "docker_ExecAttach p (Name i) [''bash'', ''-c'', ''pwdx $(</var/run/cwd)''] =
             (c, None, b)"
      and "c \<le> 0" and "CHR '':'' \<notin> set b"
  shows "fst (getInstanceCWD p i w) = Panic IndexOutOfRange"
  using assms by (simp add: getInstanceCWD_def Let_def Split_no_separator)

lemma InstanceUploadFromReader_relative_example:
  "InstanceUploadFromReader example_pwd example_node1 ''data.txt'' ''data.txt'' example_world =
     (Return None,
      example_world\<lparr>trace :=
        [DockerExecAttach ''aaaabbbb_node1'' [''bash'', ''-c'', ''pwdx $(</var/run/cwd)''],
         DockerCopyToContainer ''aaaabbbb_node1'' ''/root/data.txt'' ''data.txt'']\<rparr>)"
  by (simp add: InstanceUploadFromReader_def IsAbs_def HasPrefix_def getInstanceCWD_def
      copyFromReader_def record_call_def example_pwd_def Let_def TrimSpace_def isSpace1_def isSpace2_def isSpace3_def
      example_node1_Name example_world_def)

lemma getInstanceCWD_exit_code:
  assumes "docker_ExecAttach p (Name i) [''bash'', ''-c'', ''pwdx $(</var/run/cwd)''] =
             (c, err, b)"
      and "0 < c"
  shows "fst (getInstanceCWD p i w) =
           Return ('''', Some (Error (''Error '' @ decimal (nat c) @ '' trying to get CWD'')))"
  using assms by (simp add: getInstanceCWD_def Let_def)

subsection \<open>Every call of InstanceNew after the allocation of the host name\<close>

lemma allow_loop_Hostname:
  "CreateContainerOpts.Hostname (allow_loop xs img opts) = CreateContainerOpts.Hostname opts"
  by (induction xs) auto

lemma allow_loop_ContainerName:
  "ContainerName (allow_loop xs img opts) = ContainerName opts"
  by (induction xs) auto

lemma container_opts_names:
  "CreateContainerOpts.Hostname (container_opts p session conf cn) = InstanceConfig.Hostname conf"
  "ContainerName (container_opts p session conf cn) = cn"
  by (simp_all add: container_opts_def allow_loop_Hostname allow_loop_ContainerName)

lemma InstanceNew_after_allocation:
  assumes alloc: "allocate_hostname p session (default_image p conf0) = Return conf"
      and long: "8 \<le> length (Id' session)"
      and res: "InstanceNew p session conf0 w = (r, session', w')"
  shows "(\<exists>v. r = Return v) \<and>
    (\<exists>opts rest. trace w' = trace w @ DockerCreateContainer opts # rest \<and>
       CreateContainerOpts.Hostname opts = InstanceConfig.Hostname conf \<and>
       ContainerName opts = take 8 (Id' session) @ ''_'' @ InstanceConfig.Hostname conf) \<and>
    (\<forall>inst. r = Return (Some inst, None) \<longrightarrow>
       Hostname inst = InstanceConfig.Hostname conf \<and>
       Name inst = take 8 (Id' session) @ ''_'' @ InstanceConfig.Hostname conf) \<and>
    (\<forall>k inst. (k, inst) \<in> set (Instances session') - set (Instances session) \<longrightarrow>
       k = take 8 (Id' session) @ ''_'' @ InstanceConfig.Hostname conf \<and>
       Hostname inst = InstanceConfig.Hostname conf \<and>
       Name inst = take 8 (Id' session) @ ''_'' @ InstanceConfig.Hostname conf)"
proof -
  define cn where "cn = take 8 (Id' session) @ ''_'' @ InstanceConfig.Hostname conf"
  define opts where "opts = container_opts p session conf cn"
  obtain ip err where dc: "docker_CreateContainer p opts = (ip, err)"
    by (cases "docker_CreateContainer p opts")
  define created where "created = new_instance session conf opts ip cn"
  have on: "CreateContainerOpts.Hostname opts = InstanceConfig.Hostname conf"
    "ContainerName opts = cn"
    by (simp_all add: opts_def container_opts_names)
  have cr: "Hostname created = InstanceConfig.Hostname conf" "Name created = cn"
    by (simp_all add: created_def new_instance_def)
  define err2 where "err2 = storage_InstanceCreate p (Id' session) created"
  have eq: "InstanceNew p session conf0 w =
      (if err \<noteq> None
       then (Return (None, err), session, record_call (DockerCreateContainer opts) w)
       else if err2 \<noteq> None
       then (Return (None, err2),
             session\<lparr>Instances := AList.update (Name created) created (Instances session)\<rparr>,
             record_call (StorageInstanceCreate (Id' session) created)
               (record_call (Go_InstanceAttachTerminal created)
                  (record_call (DockerCreateContainer opts) w)))
       else (Return (Some created, None),
             session\<lparr>Instances := AList.update (Name created) created (Instances session)\<rparr>,
             setGauges
               (emit (INSTANCE_NEW (Id' session) (Name created) (IP created) (Hostname created))
                  (record_call (StorageInstanceCreate (Id' session) created)
                     (record_call (Go_InstanceAttachTerminal created)
                        (record_call (DockerCreateContainer opts) w))))))"
    using alloc long dc [unfolded opts_def cn_def]
    by (simp add: InstanceNew_def slice_to_def Let_def cn_def opts_def created_def err2_def)
  have c1: "\<exists>v. r = Return v"
    using eq res by (auto split: if_splits)
  have t: "\<exists>rest. trace w' = trace w @ DockerCreateContainer opts # rest"
    using eq res by (auto split: if_splits)
  have c2: "\<exists>opts rest. trace w' = trace w @ DockerCreateContainer opts # rest \<and>
       CreateContainerOpts.Hostname opts = InstanceConfig.Hostname conf \<and>
       ContainerName opts = cn"
    using t on by blast
  have c3: "\<forall>inst. r = Return (Some inst, None) \<longrightarrow>
       Hostname inst = InstanceConfig.Hostname conf \<and> Name inst = cn"
    using eq res cr by (auto split: if_splits)
  have sub: "set (Instances session') \<subseteq>
      insert (Name created, created) (set (Instances session))"
    using eq res set_update_subset [of "Name created" created "Instances session"]
    by (auto split: if_splits)
  have c4: "\<forall>k inst. (k, inst) \<in> set (Instances session') - set (Instances session) \<longrightarrow>
       k = cn \<and> Hostname inst = InstanceConfig.Hostname conf \<and> Name inst = cn"
    using sub cr by auto
  from c1 c2 c3 c4 show ?thesis unfolding cn_def [symmetric] by blast
qed


lemma example_alloc:
  "allocate_hostname p example_session (default_image p example_conf) =
     Return ((default_image p example_conf)\<lparr>InstanceConfig.Hostname := ''node3''\<rparr>)"
  using example_loop [of p]
  by (simp add: allocate_hostname_def default_image_def example_conf_def)

lemma example_session_names:
  "\<exists>(k, inst) \<in> set (Instances example_session).
     Name inst = take 8 (Id' example_session) @ ''_node'' @ decimal 1"
  "\<exists>(k, inst) \<in> set (Instances example_session).
     Name inst = take 8 (Id' example_session) @ ''_node'' @ decimal 2"
  "\<forall>(k, inst) \<in> set (Instances example_session).
     Name inst \<noteq> take 8 (Id' example_session) @ ''_node'' @ decimal 3"
  by (simp_all add: example_session_def example_instance_def decimal.simps)

subsection \<open>Privilege\<close>

text \<open>
  C1. The instance that \<^verbatim>\<open>InstanceNew\<close> creates (the one it returns, and the one it
  inserts into the instance map of the session) has \<open>IsDockerHost\<close> set if and only if
  the effective image, the requested one or the configured default when none is
  requested, is equal to one of the images of \<^verbatim>\<open>InstanceAllowedImages\<close>.
\<close>

theorem InstanceNew_privilege:
  assumes "InstanceNew p session conf w = (r, session', w')"
  shows "(\<forall>inst. r = Return (Some inst, None) \<longrightarrow>
            IsDockerHost inst =
              ((if ImageName conf = [] then config_GetDindImageName p else ImageName conf)
                 \<in> set (InstanceAllowedImages p))) \<and>
         (\<forall>k inst. (k, inst) \<in> set (Instances session') - set (Instances session) \<longrightarrow>
            IsDockerHost inst =
              ((if ImageName conf = [] then config_GetDindImageName p else ImageName conf)
                 \<in> set (InstanceAllowedImages p)))"
proof (cases "allocate_hostname p session (default_image p conf)")
  case (Panic x)
  with assms show ?thesis by (auto simp: InstanceNew_def)
next
  case (Return conf')
  have img: "ImageName conf' =
      (if ImageName conf = [] then config_GetDindImageName p else ImageName conf)"
    using allocate_hostname_ImageName [OF Return] by (simp add: default_image_ImageName)
  show ?thesis
  proof (cases "slice_to (Id' session) 8")
    case (Panic x)
    with assms Return show ?thesis by (auto simp: InstanceNew_def)
  next
    case pre: (Return prefix)
    define cn where "cn = prefix @ ''_'' @ InstanceConfig.Hostname conf'"
    define opts where "opts = container_opts p session conf' cn"
    obtain ip err where dc: "docker_CreateContainer p opts = (ip, err)"
      by (cases "docker_CreateContainer p opts")
    define created where "created = new_instance session conf' opts ip cn"
    have priv: "IsDockerHost created =
        ((if ImageName conf = [] then config_GetDindImageName p else ImageName conf)
           \<in> set (InstanceAllowedImages p))"
      unfolding created_def opts_def by (simp add: new_instance_IsDockerHost img)
    show ?thesis
    proof (cases "err = None")
      case False
      with assms Return pre dc show ?thesis
        by (auto simp: InstanceNew_def Let_def cn_def opts_def)
    next
      case True
      with assms Return pre dc
      have s': "session' = session\<lparr>Instances :=
                   AList.update (Name created) created (Instances session)\<rparr>"
        and r: "r = Return (Some created, None) \<or> (\<exists>e. r = Return (None, Some e))"
        by (auto simp: InstanceNew_def Let_def cn_def opts_def created_def split: if_splits)
      from s' have sub: "set (Instances session') \<subseteq>
          insert (Name created, created) (set (Instances session))"
        by (simp add: set_update_subset)
      from r sub priv show ?thesis by auto
    qed
  qed
qed

theorem InstanceNew_privilege_witness:
  "(\<exists>inst session' w'.
      InstanceNew example_pwd example_session (example_conf\<lparr>ImageName := ''alpine''\<rparr>)
        example_world = (Return (Some inst, None), session', w') \<and>
      \<not> IsDockerHost inst) \<and>
   (\<exists>inst session' w'.
      InstanceNew example_pwd example_session example_conf example_world =
        (Return (Some inst, None), session', w') \<and>
      IsDockerHost inst)"
proof
  let ?c = "example_conf\<lparr>ImageName := ''alpine''\<rparr>"
  obtain r session' w' where e:
    "InstanceNew example_pwd example_session ?c example_world = (r, session', w')"
    by (cases "InstanceNew example_pwd example_session ?c example_world")
  have alloc: "allocate_hostname example_pwd example_session (default_image example_pwd ?c) =
      Return (?c\<lparr>InstanceConfig.Hostname := ''node3''\<rparr>)"
    using example_loop by (simp add: allocate_hostname_def default_image_def example_conf_def)
  have "\<exists>inst. fst (InstanceNew example_pwd example_session ?c example_world) =
          Return (Some inst, None)"
    by (simp add: InstanceNew_def alloc example_slice example_pwd_create
        example_pwd_store Let_def)
  with e obtain inst where r: "r = Return (Some inst, None)" by auto
  have allowed: "((if ImageName ?c = [] then config_GetDindImageName example_pwd
                   else ImageName ?c) \<in> set (InstanceAllowedImages example_pwd)) = False"
    by (simp add: InstanceAllowedImages_def example_pwd_def example_conf_def)
  from InstanceNew_privilege [OF e] r allowed e
  show "\<exists>inst session' w'.
      InstanceNew example_pwd example_session ?c example_world =
        (Return (Some inst, None), session', w') \<and> \<not> IsDockerHost inst"
    by auto
next
  obtain r session' w' where e:
    "InstanceNew example_pwd example_session example_conf example_world = (r, session', w')"
    by (cases "InstanceNew example_pwd example_session example_conf example_world")
  have alloc: "allocate_hostname example_pwd example_session
                 (default_image example_pwd example_conf) =
      Return ((default_image example_pwd example_conf)
                \<lparr>InstanceConfig.Hostname := ''node3''\<rparr>)"
    using example_loop by (simp add: allocate_hostname_def default_image_def example_conf_def)
  have "\<exists>inst. fst (InstanceNew example_pwd example_session example_conf example_world) =
          Return (Some inst, None)"
    by (simp add: InstanceNew_def alloc example_slice example_pwd_create
        example_pwd_store Let_def)
  with e obtain inst where r: "r = Return (Some inst, None)" by auto
  have allowed: "((if ImageName example_conf = [] then config_GetDindImageName example_pwd
                   else ImageName example_conf) \<in> set (InstanceAllowedImages example_pwd))
                 = True"
    by (simp add: InstanceAllowedImages_def example_pwd_def example_conf_def)
  from InstanceNew_privilege [OF e] r allowed e
  show "\<exists>inst session' w'.
      InstanceNew example_pwd example_session example_conf example_world =
        (Return (Some inst, None), session', w') \<and> IsDockerHost inst"
    by auto
qed

subsection \<open>Allocation of host names\<close>

text \<open>
  C3, as the code has it. For a session whose identity has at least eight bytes and a
  configuration without a host name, every call of \<^verbatim>\<open>InstanceNew\<close> returns, and there is
  a least \<open>N \<ge> 1\<close> such that no instance of the session is named by the first eight
  bytes of the session identity, an underscore and \<open>node N\<close>: that name is free and
  every smaller number is taken. The call hands the host name \<open>node N\<close> and that
  container name to the engine, whether or not the engine or the storage then fail;
  the instance it returns and the instance it inserts into the map of the session
  carry them.
\<close>

theorem InstanceNew_allocates_lowest_free_node:
  assumes "8 \<le> length (Id' session)" and "InstanceConfig.Hostname conf = []"
      and "InstanceNew p session conf w = (r, session', w')"
  shows "\<exists>N\<ge>1.
    (\<forall>(k, inst) \<in> set (Instances session).
       Name inst \<noteq> take 8 (Id' session) @ ''_node'' @ decimal N) \<and>
    (\<forall>M. 1 \<le> M \<and> M < N \<longrightarrow>
       (\<exists>(k, inst) \<in> set (Instances session).
          Name inst = take 8 (Id' session) @ ''_node'' @ decimal M)) \<and>
    (\<exists>v. r = Return v) \<and>
    (\<exists>opts rest. trace w' = trace w @ DockerCreateContainer opts # rest \<and>
       CreateContainerOpts.Hostname opts = ''node'' @ decimal N \<and>
       ContainerName opts = take 8 (Id' session) @ ''_node'' @ decimal N) \<and>
    (\<forall>inst. r = Return (Some inst, None) \<longrightarrow>
       Hostname inst = ''node'' @ decimal N \<and>
       Name inst = take 8 (Id' session) @ ''_node'' @ decimal N) \<and>
    (\<forall>k inst. (k, inst) \<in> set (Instances session') - set (Instances session) \<longrightarrow>
       k = take 8 (Id' session) @ ''_node'' @ decimal N \<and>
       Hostname inst = ''node'' @ decimal N \<and>
       Name inst = take 8 (Id' session) @ ''_node'' @ decimal N)"
proof -
  let ?names = "Name ` snd ` set (Instances session)"
  obtain N where N: "1 \<le> N"
    and loop: "nodeName_loop p session 1 = Return (''node'' @ decimal N)"
    and free: "node_container session N \<notin> ?names"
    and used: "\<forall>j. 1 \<le> j \<and> j < N \<longrightarrow> node_container session j \<in> ?names"
    using nodeName_loop_least [OF assms(1), of 1 p] by blast
  define conf' where
    "conf' = (default_image p conf)\<lparr>InstanceConfig.Hostname := ''node'' @ decimal N\<rparr>"
  have h: "InstanceConfig.Hostname (default_image p conf) = []"
    using assms(2) by (simp add: default_image_def)
  have alloc: "allocate_hostname p session (default_image p conf) = Return conf'"
    unfolding allocate_hostname_def conf'_def using h loop by simp
  have hn: "InstanceConfig.Hostname conf' = ''node'' @ decimal N"
    by (simp add: conf'_def)
  have c1: "\<forall>(k, inst) \<in> set (Instances session).
       Name inst \<noteq> take 8 (Id' session) @ ''_node'' @ decimal N"
    using free by (force simp: node_container_def)
  have c2: "\<forall>M. 1 \<le> M \<and> M < N \<longrightarrow>
       (\<exists>(k, inst) \<in> set (Instances session).
          Name inst = take 8 (Id' session) @ ''_node'' @ decimal M)"
  proof (intro allI impI)
    fix M assume "1 \<le> M \<and> M < N"
    with used have "node_container session M \<in> ?names" by blast
    then show "\<exists>(k, inst) \<in> set (Instances session).
          Name inst = take 8 (Id' session) @ ''_node'' @ decimal M"
      by (force simp: node_container_def)
  qed
  have rest: "(\<exists>v. r = Return v) \<and>
    (\<exists>opts rest. trace w' = trace w @ DockerCreateContainer opts # rest \<and>
       CreateContainerOpts.Hostname opts = ''node'' @ decimal N \<and>
       ContainerName opts = take 8 (Id' session) @ ''_node'' @ decimal N) \<and>
    (\<forall>inst. r = Return (Some inst, None) \<longrightarrow>
       Hostname inst = ''node'' @ decimal N \<and>
       Name inst = take 8 (Id' session) @ ''_node'' @ decimal N) \<and>
    (\<forall>k inst. (k, inst) \<in> set (Instances session') - set (Instances session) \<longrightarrow>
       k = take 8 (Id' session) @ ''_node'' @ decimal N \<and>
       Hostname inst = ''node'' @ decimal N \<and>
       Name inst = take 8 (Id' session) @ ''_node'' @ decimal N)"
    using InstanceNew_after_allocation [OF alloc assms(1) assms(3)] by (simp add: hn)
  from N c1 c2 rest show ?thesis by blast
qed

text \<open>
  The example of the claim, in a call that succeeds and in a call where the engine
  fails: with node1, node2 and node4 in the session, the host name is node3.
\<close>

theorem InstanceNew_allocates_lowest_free_node_witness:
  "8 \<le> length (Id' example_session) \<and> InstanceConfig.Hostname example_conf = [] \<and>
   (\<exists>inst session' w' opts rest.
      InstanceNew example_pwd example_session example_conf example_world =
        (Return (Some inst, None), session', w') \<and>
      Hostname inst = ''node3'' \<and> Name inst = ''aaaabbbb_node3'' \<and>
      trace w' = DockerCreateContainer opts # rest \<and>
      CreateContainerOpts.Hostname opts = ''node3'' \<and>
      ContainerName opts = ''aaaabbbb_node3'') \<and>
   (\<exists>session' w' opts rest.
      InstanceNew create_fails_pwd example_session example_conf example_world =
        (Return (None, Some (Error ''no space left on device'')), session', w') \<and>
      trace w' = DockerCreateContainer opts # rest \<and>
      CreateContainerOpts.Hostname opts = ''node3'' \<and>
      ContainerName opts = ''aaaabbbb_node3'')"
proof -
  have a: "8 \<le> length (Id' example_session)" by (simp add: example_session_Id)
  have b: "InstanceConfig.Hostname example_conf = []" by (simp add: example_conf_def)
  have t: "trace example_world = []" by (simp add: example_world_def)
  have three: "N = 3"
    if "1 \<le> N"
      and "\<forall>(k, inst) \<in> set (Instances example_session).
             Name inst \<noteq> take 8 (Id' example_session) @ ''_node'' @ decimal N"
      and "\<forall>M. 1 \<le> M \<and> M < N \<longrightarrow>
             (\<exists>(k, inst) \<in> set (Instances example_session).
                Name inst = take 8 (Id' example_session) @ ''_node'' @ decimal M)"
    for N
  proof -
    have "N \<noteq> 1" using that(2) example_session_names(1) by auto
    moreover have "N \<noteq> 2" using that(2) example_session_names(2) by auto
    moreover have "\<not> 3 < N"
    proof
      assume "3 < N"
      with that(3) have "\<exists>(k, inst) \<in> set (Instances example_session).
          Name inst = take 8 (Id' example_session) @ ''_node'' @ decimal 3" by simp
      with example_session_names(3) show False by auto
    qed
    ultimately show ?thesis using that(1) by arith
  qed
  have pre: "take 8 (Id' example_session) @ ''_node'' @ decimal 3 = ''aaaabbbb_node3''"
    "''node'' @ decimal 3 = ''node3''"
    by (simp_all add: example_session_Id decimal.simps)
  obtain r1 s1 w1 where e1:
    "InstanceNew example_pwd example_session example_conf example_world = (r1, s1, w1)"
    by (cases "InstanceNew example_pwd example_session example_conf example_world")
  have "\<exists>inst. fst (InstanceNew example_pwd example_session example_conf example_world) =
          Return (Some inst, None)"
    by (simp add: InstanceNew_def example_alloc example_slice example_pwd_create
        example_pwd_store Let_def)
  with e1 obtain inst where r1: "r1 = Return (Some inst, None)" by auto
  from InstanceNew_allocates_lowest_free_node [OF a b e1] obtain N opts rest
    where "1 \<le> N"
      and "\<forall>(k, inst) \<in> set (Instances example_session).
             Name inst \<noteq> take 8 (Id' example_session) @ ''_node'' @ decimal N"
      and "\<forall>M. 1 \<le> M \<and> M < N \<longrightarrow>
             (\<exists>(k, inst) \<in> set (Instances example_session).
                Name inst = take 8 (Id' example_session) @ ''_node'' @ decimal M)"
      and tr: "trace w1 = trace example_world @ DockerCreateContainer opts # rest"
      and on: "CreateContainerOpts.Hostname opts = ''node'' @ decimal N"
         "ContainerName opts = take 8 (Id' example_session) @ ''_node'' @ decimal N"
      and ins: "\<forall>inst. r1 = Return (Some inst, None) \<longrightarrow>
         Hostname inst = ''node'' @ decimal N \<and>
         Name inst = take 8 (Id' example_session) @ ''_node'' @ decimal N"
    by blast
  then have n3: "N = 3" using three by blast
  have first: "\<exists>inst session' w' opts rest.
      InstanceNew example_pwd example_session example_conf example_world =
        (Return (Some inst, None), session', w') \<and>
      Hostname inst = ''node3'' \<and> Name inst = ''aaaabbbb_node3'' \<and>
      trace w' = DockerCreateContainer opts # rest \<and>
      CreateContainerOpts.Hostname opts = ''node3'' \<and>
      ContainerName opts = ''aaaabbbb_node3''"
    using e1 r1 tr on ins n3 pre t by auto
  obtain r2 s2 w2 where e2:
    "InstanceNew create_fails_pwd example_session example_conf example_world = (r2, s2, w2)"
    by (cases "InstanceNew create_fails_pwd example_session example_conf example_world")
  have dc: "docker_CreateContainer create_fails_pwd x =
      ([], Some (Error ''no space left on device''))" for x
    by (simp add: create_fails_pwd_def)
  have "fst (InstanceNew create_fails_pwd example_session example_conf example_world) =
          Return (None, Some (Error ''no space left on device''))"
    by (simp add: InstanceNew_def example_alloc example_slice dc Let_def)
  with e2 have r2: "r2 = Return (None, Some (Error ''no space left on device''))" by simp
  from InstanceNew_allocates_lowest_free_node [OF a b e2] obtain N2 opts2 rest2
    where "1 \<le> N2"
      and "\<forall>(k, inst) \<in> set (Instances example_session).
             Name inst \<noteq> take 8 (Id' example_session) @ ''_node'' @ decimal N2"
      and "\<forall>M. 1 \<le> M \<and> M < N2 \<longrightarrow>
             (\<exists>(k, inst) \<in> set (Instances example_session).
                Name inst = take 8 (Id' example_session) @ ''_node'' @ decimal M)"
      and tr2: "trace w2 = trace example_world @ DockerCreateContainer opts2 # rest2"
      and on2: "CreateContainerOpts.Hostname opts2 = ''node'' @ decimal N2"
         "ContainerName opts2 = take 8 (Id' example_session) @ ''_node'' @ decimal N2"
    by blast
  then have n32: "N2 = 3" using three by blast
  have second: "\<exists>session' w' opts rest.
      InstanceNew create_fails_pwd example_session example_conf example_world =
        (Return (None, Some (Error ''no space left on device'')), session', w') \<and>
      trace w' = DockerCreateContainer opts # rest \<and>
      CreateContainerOpts.Hostname opts = ''node3'' \<and>
      ContainerName opts = ''aaaabbbb_node3''"
    using e2 r2 tr2 on2 n32 pre t by auto
  from a b first second show ?thesis by blast
qed

text \<open>
  C3 as stated, for every session, fails: in a session whose identity has three bytes
  the call ends in a panic before a host name is allocated, and nothing is handed to
  the engine.
\<close>

theorem InstanceNew_short_session_allocates_nothing:
  "InstanceConfig.Hostname example_conf = [] \<and>
   InstanceNew example_pwd short_session example_conf example_world =
     (Panic SliceOutOfRange, short_session, example_world)"
proof -
  have s: "length (Id' short_session) < 8" by (simp add: short_session_def)
  have "nodeName_loop example_pwd short_session 1 = Panic SliceOutOfRange"
    using s by (rule nodeName_loop_panic)
  then show ?thesis
    by (simp add: InstanceNew_def allocate_hostname_def default_image_def example_conf_def)
qed

subsection \<open>The slice of the session identity\<close>

text \<open>
  C10. \<^verbatim>\<open>checkHostnameExists\<close> and \<^verbatim>\<open>InstanceNew\<close> both take \<^verbatim>\<open>session.Id[:8]\<close> on every path.
  When the identity of the session has fewer than eight bytes the slice is out of range
  and both end in a panic; when it has at least eight bytes both return.
\<close>

theorem session_id_slice_precondition:
  "(length (Id' session) < 8 \<longrightarrow>
      checkHostnameExists p session hostname = Panic SliceOutOfRange \<and>
      fst (InstanceNew p session conf w) = Panic SliceOutOfRange) \<and>
   (8 \<le> length (Id' session) \<longrightarrow>
      (\<exists>b. checkHostnameExists p session hostname = Return b) \<and>
      (\<exists>r. fst (InstanceNew p session conf w) = Return r))"
proof (intro conjI impI)
  assume short: "length (Id' session) < 8"
  show "checkHostnameExists p session hostname = Panic SliceOutOfRange"
    using short by (simp add: checkHostnameExists_def slice_to_def)
  show "fst (InstanceNew p session conf w) = Panic SliceOutOfRange"
    using short
    by (simp add: InstanceNew_def allocate_hostname_def nodeName_loop_panic slice_to_def
        split: outcome.splits)
next
  assume long: "8 \<le> length (Id' session)"
  show "\<exists>b. checkHostnameExists p session hostname = Return b"
    using long by (simp add: checkHostnameExists_def slice_to_def)
  obtain N where "nodeName_loop p session 1 = Return (''node'' @ decimal N)"
    using nodeName_loop_least [OF long, of 1 p] by blast
  then have "\<exists>c. allocate_hostname p session (default_image p conf) = Return c"
    unfolding allocate_hostname_def by (cases "InstanceConfig.Hostname (default_image p conf) = []") simp_all
  then obtain c where "allocate_hostname p session (default_image p conf) = Return c" ..
  then show "\<exists>r. fst (InstanceNew p session conf w) = Return r"
    using long
    by (simp add: InstanceNew_def slice_to_def Let_def split: prod.splits)
qed

theorem session_id_slice_precondition_witness:
  "length (Id' short_session) < 8 \<and>
   checkHostnameExists example_pwd short_session ''node1'' = Panic SliceOutOfRange \<and>
   fst (InstanceNew example_pwd short_session example_conf example_world) =
     Panic SliceOutOfRange \<and>
   8 \<le> length (Id' example_session) \<and>
   (\<exists>b. checkHostnameExists example_pwd example_session ''node1'' = Return b) \<and>
   (\<exists>r. fst (InstanceNew example_pwd example_session example_conf example_world) = Return r)"
  using session_id_slice_precondition
          [of short_session example_pwd "''node1''" example_conf example_world]
        session_id_slice_precondition
          [of example_session example_pwd "''node1''" example_conf example_world]
  by (simp add: short_session_def example_session_def)

subsection \<open>Deleting an instance\<close>

text \<open>
  C2, as the code has it. \<^verbatim>\<open>InstanceDelete\<close> closes the connection registered for the
  session identity and the instance name, and never writes to the registry: whatever
  its result, the registry afterwards is the registry before, so a channel that was
  registered for the pair is still registered, and is closed.
\<close>

theorem InstanceDelete_keeps_registry:
  "terms (snd (InstanceDelete p session i w)) = terms w \<and>
   (\<forall>c. getInstanceTermConn (terms w) (Id' session) (Name i) = Some c \<longrightarrow>
      getInstanceTermConn (terms (snd (InstanceDelete p session i w)))
        (Id' session) (Name i) = Some c \<and>
      closed (conns (snd (InstanceDelete p session i w)) c))"
  by (simp add: InstanceDelete_terms InstanceDelete_conns)


theorem InstanceDelete_keeps_registry_witness:
  "getInstanceTermConn (terms attached_world) (Id' example_session) (Name example_node1) =
     Some 0 \<and>
   terms (snd (InstanceDelete example_pwd example_session example_node1 attached_world)) =
     terms attached_world \<and>
   getInstanceTermConn
     (terms (snd (InstanceDelete example_pwd example_session example_node1 attached_world)))
     (Id' example_session) (Name example_node1) = Some 0 \<and>
   closed (conns (snd (InstanceDelete example_pwd example_session example_node1
                         attached_world)) 0)"
proof -
  have a: "getInstanceTermConn (terms attached_world) (Id' example_session)
             (Name example_node1) = Some 0"
    using attached_world_conn by (simp add: example_node1_Name example_session_Id)
  from a InstanceDelete_keeps_registry
           [of example_pwd example_session example_node1 attached_world]
  show ?thesis by simp
qed

text \<open>
  C2 as stated fails: a delete that succeeds leaves connection 0 registered for the
  deleted instance.
\<close>

theorem InstanceDelete_leaves_channel_registered:
  "fst (InstanceDelete example_pwd example_session example_node1 attached_world) = None \<and>
   getInstanceTermConn
     (terms (snd (InstanceDelete example_pwd example_session example_node1 attached_world)))
     ''aaaabbbbcccc'' ''aaaabbbb_node1'' = Some 0"
proof -
  have a: "docker_DeleteContainer example_pwd name = None" for name
    by (simp add: example_pwd_def)
  have c: "storage_InstanceDelete example_pwd sessionId name = None" for sessionId name
    by (simp add: example_pwd_def)
  have r: "fst (InstanceDelete example_pwd example_session example_node1 attached_world) = None"
    by (simp add: InstanceDelete_def Let_def a c split: option.splits)
  have t: "terms (snd (InstanceDelete example_pwd example_session example_node1
                         attached_world)) = terms attached_world"
    by (rule InstanceDelete_terms)
  from r t attached_world_conn show ?thesis by simp
qed

text \<open>
  C5, as the code has it. When the engine answers the removal with an error whose
  message contains \<^verbatim>\<open>No such container\<close>, \<^verbatim>\<open>InstanceDelete\<close> swallows that error, emits the
  deletion event and asks the storage to remove the record; its result is the result
  of the storage, and the gauges are updated exactly when the storage succeeded.
\<close>

theorem InstanceDelete_container_already_gone:
  assumes "docker_DeleteContainer p (Name i) = Some err"
      and "Contains (Error_msg err) ''No such container''"
  shows "fst (InstanceDelete p session i w) =
           storage_InstanceDelete p (Id' session) (Name i) \<and>
         trace (snd (InstanceDelete p session i w)) =
           trace w @
           [DockerDeleteContainer (Name i),
            Emit (INSTANCE_DELETE (Id' session) (Name i)),
            StorageInstanceDelete (Id' session) (Name i)] @
           (if storage_InstanceDelete p (Id' session) (Name i) = None
            then [SetGauges] else [])"
  using assms by (simp add: InstanceDelete_def Let_def split: option.splits)

theorem InstanceDelete_container_already_gone_witness:
  "docker_DeleteContainer gone_pwd (Name example_node1) =
     Some (Error ''Error response from daemon: No such container: aaaabbbb_node1'') \<and>
   Contains (Error_msg (Error ''Error response from daemon: No such container: aaaabbbb_node1''))
     ''No such container'' \<and>
   fst (InstanceDelete gone_pwd example_session example_node1 attached_world) = None \<and>
   trace (snd (InstanceDelete gone_pwd example_session example_node1 attached_world)) =
     [DockerDeleteContainer ''aaaabbbb_node1'',
      Emit (INSTANCE_DELETE ''aaaabbbbcccc'' ''aaaabbbb_node1''),
      StorageInstanceDelete ''aaaabbbbcccc'' ''aaaabbbb_node1'',
      SetGauges]"
proof -
  have a: "docker_DeleteContainer gone_pwd (Name example_node1) =
      Some (Error ''Error response from daemon: No such container: aaaabbbb_node1'')"
    by (rule gone_pwd_delete)
  have b: "Contains
      (Error_msg (Error ''Error response from daemon: No such container: aaaabbbb_node1''))
      ''No such container''"
    using gone_message by simp
  have c: "storage_InstanceDelete gone_pwd sessionId name = None" for sessionId name
    by (simp add: gone_pwd_def example_pwd_def)
  have d: "trace attached_world = []"
    by (simp add: attached_world_def example_world_def)
  from a b InstanceDelete_container_already_gone [OF a b, of example_session attached_world]
  show ?thesis by (simp add: c d example_node1_Name example_session_Id)
qed

text \<open>
  C5 as stated fails: the engine reports the container as gone, the storage fails,
  and \<^verbatim>\<open>InstanceDelete\<close> returns the error of the storage instead of nil.
\<close>

theorem InstanceDelete_gone_but_storage_fails:
  "docker_DeleteContainer gone_broken_store_pwd (Name example_node1) =
     Some (Error ''Error response from daemon: No such container: aaaabbbb_node1'') \<and>
   Contains ''Error response from daemon: No such container: aaaabbbb_node1''
     ''No such container'' \<and>
   fst (InstanceDelete gone_broken_store_pwd example_session example_node1 attached_world) =
     Some (Error ''storage unavailable'') \<and>
   fst (InstanceDelete gone_broken_store_pwd example_session example_node1 attached_world) \<noteq>
     None"
proof -
  have a: "docker_DeleteContainer gone_broken_store_pwd name =
      Some (Error ''Error response from daemon: No such container: aaaabbbb_node1'')" for name
    by (simp add: gone_broken_store_pwd_def gone_pwd_def)
  have c: "storage_InstanceDelete gone_broken_store_pwd sessionId name =
      Some (Error ''storage unavailable'')" for sessionId name
    by (simp add: gone_broken_store_pwd_def)
  have "fst (InstanceDelete gone_broken_store_pwd example_session example_node1 attached_world) =
     Some (Error ''storage unavailable'')"
    using gone_message by (simp add: InstanceDelete_def Let_def a c split: option.splits)
  with a gone_message show ?thesis by simp
qed

text \<open>
  C6. When the engine answers the removal with an error whose message does not contain
  \<^verbatim>\<open>No such container\<close>, \<^verbatim>\<open>InstanceDelete\<close> returns that very error, and the only call it
  has made to a collaborator is the removal itself: no event is emitted, the storage
  is not asked to remove the record and the gauges are not updated.
\<close>

theorem InstanceDelete_engine_error_aborts:
  assumes "docker_DeleteContainer p (Name i) = Some err"
      and "\<not> Contains (Error_msg err) ''No such container''"
  shows "fst (InstanceDelete p session i w) = Some err \<and>
         trace (snd (InstanceDelete p session i w)) =
           trace w @ [DockerDeleteContainer (Name i)]"
  using assms by (simp add: InstanceDelete_def Let_def split: option.splits)

theorem InstanceDelete_engine_error_aborts_witness:
  "docker_DeleteContainer engine_down_pwd (Name example_node1) =
     Some (Error ''Cannot connect to the Docker daemon'') \<and>
   \<not> Contains (Error_msg (Error ''Cannot connect to the Docker daemon'')) ''No such container'' \<and>
   fst (InstanceDelete engine_down_pwd example_session example_node1 attached_world) =
     Some (Error ''Cannot connect to the Docker daemon'') \<and>
   trace (snd (InstanceDelete engine_down_pwd example_session example_node1 attached_world)) =
     trace attached_world @ [DockerDeleteContainer (Name example_node1)]"
proof -
  have a: "docker_DeleteContainer engine_down_pwd (Name example_node1) =
      Some (Error ''Cannot connect to the Docker daemon'')"
    by (simp add: engine_down_pwd_def)
  have b: "\<not> Contains (Error_msg (Error ''Cannot connect to the Docker daemon''))
             ''No such container''"
    using down_message by simp
  from a b InstanceDelete_engine_error_aborts [OF a b, of example_session attached_world]
  show ?thesis by simp
qed

subsection \<open>The terminal registry\<close>

text \<open>
  C4. When a channel is already registered for the session identity and the name of
  the instance, \<^verbatim>\<open>InstanceAttachTerminal\<close> returns nil at once and leaves the whole state as
  it is: no connection is requested from the engine and no copy loop runs. After a
  call that did not fail (it returned nil, or it is still in its copy loop) the channel
  is registered, a further call changes nothing, and the first call has requested at
  most one connection.
\<close>

theorem InstanceAttachTerminal_idempotent:
  "(getInstanceTermConn (terms w) (SessionId i) (Name i) \<noteq> None \<longrightarrow>
      InstanceAttachTerminal p i w = (Some None, w)) \<and>
   (\<forall>r w1. InstanceAttachTerminal p i w = (r, w1) \<and> (\<forall>e. r \<noteq> Some (Some e)) \<longrightarrow>
      getInstanceTermConn (terms w1) (SessionId i) (Name i) \<noteq> None \<and>
      InstanceAttachTerminal p i w1 = (Some None, w1) \<and>
      length [x \<leftarrow> trace w1. x = DockerCreateAttachConnection (Name i)] \<le>
        Suc (length [x \<leftarrow> trace w. x = DockerCreateAttachConnection (Name i)]))"
proof (intro conjI impI allI)
  assume "getInstanceTermConn (terms w) (SessionId i) (Name i) \<noteq> None"
  then show "InstanceAttachTerminal p i w = (Some None, w)" by (rule attach_noop)
next
  fix r w1
  assume a: "InstanceAttachTerminal p i w = (r, w1) \<and> (\<forall>e. r \<noteq> Some (Some e))"
  then show reg: "getInstanceTermConn (terms w1) (SessionId i) (Name i) \<noteq> None"
    using attach_registered by blast
  then show "InstanceAttachTerminal p i w1 = (Some None, w1)" by (rule attach_noop)
  from a show "length [x \<leftarrow> trace w1. x = DockerCreateAttachConnection (Name i)] \<le>
        Suc (length [x \<leftarrow> trace w. x = DockerCreateAttachConnection (Name i)])"
    using attach_one_connection by blast
qed

theorem InstanceAttachTerminal_idempotent_witness:
  "getInstanceTermConn (terms attached_world) (SessionId example_node1) (Name example_node1)
     \<noteq> None \<and>
   InstanceAttachTerminal example_pwd example_node1 attached_world =
     (Some None, attached_world) \<and>
   (\<exists>w1. InstanceAttachTerminal example_pwd example_node1 example_world = (Some None, w1) \<and>
      getInstanceTermConn (terms w1) (SessionId example_node1) (Name example_node1) \<noteq> None \<and>
      InstanceAttachTerminal example_pwd example_node1 w1 = (Some None, w1) \<and>
      length [x \<leftarrow> trace w1. x = DockerCreateAttachConnection (Name example_node1)] \<le> Suc 0)"
proof -
  have sid: "SessionId example_node1 = ''aaaabbbbcccc''"
    by (simp add: example_node1_def example_instance_def)
  have a: "getInstanceTermConn (terms attached_world) (SessionId example_node1)
             (Name example_node1) \<noteq> None"
    using attached_world_conn by (simp add: sid example_node1_Name)
  obtain r w1 where e: "InstanceAttachTerminal example_pwd example_node1 example_world = (r, w1)"
    by (cases "InstanceAttachTerminal example_pwd example_node1 example_world")
  have "fst (InstanceAttachTerminal example_pwd example_node1 example_world) = Some None"
    by (simp add: InstanceAttachTerminal_def getInstanceTermConn_def example_world_def
        example_pwd_def io_Copy_def record_call_def Let_def)
  with e have r: "r = Some None" by simp
  have t: "trace example_world = []" by (simp add: example_world_def)
  have first: "InstanceAttachTerminal example_pwd example_node1 attached_world =
      (Some None, attached_world)"
    using conjunct1 [OF InstanceAttachTerminal_idempotent
                          [of attached_world example_node1 example_pwd]] a
    by (rule mp)
  have ok: "InstanceAttachTerminal example_pwd example_node1 example_world = (r, w1) \<and>
      (\<forall>e. r \<noteq> Some (Some e))"
    using e r by simp
  have second: "getInstanceTermConn (terms w1) (SessionId example_node1) (Name example_node1)
        \<noteq> None \<and>
      InstanceAttachTerminal example_pwd example_node1 w1 = (Some None, w1) \<and>
      length [x \<leftarrow> trace w1. x = DockerCreateAttachConnection (Name example_node1)] \<le>
        Suc (length [x \<leftarrow> trace example_world.
                       x = DockerCreateAttachConnection (Name example_node1)])"
    using conjunct2 [OF InstanceAttachTerminal_idempotent
                          [of example_world example_node1 example_pwd],
                     rule_format, of r w1] ok
    by (rule mp [OF impI])
  from second t have third: "length [x \<leftarrow> trace w1.
      x = DockerCreateAttachConnection (Name example_node1)] \<le> Suc 0"
    by simp
  from e r have "InstanceAttachTerminal example_pwd example_node1 example_world =
      (Some None, w1)" by simp
  with a first second third show ?thesis by blast
qed

text \<open>
  C7. \<^verbatim>\<open>InstanceWriteToTerminal\<close> returns no value, so it has no error to surface. Without a
  registered channel, or with empty data, it leaves the state as it is; with a
  registered channel and data that is not empty it is the write to that channel; it
  never touches the registry or the trace of calls. After \<^verbatim>\<open>InstanceDelete\<close>, a write for
  the deleted instance leaves the state as it is (a channel that is still registered
  has been closed, and a closed connection refuses the write).
\<close>

theorem InstanceWriteToTerminal_silent:
  "(getInstanceTermConn (terms w) sessionId instanceName = None \<or> data = [] \<longrightarrow>
      InstanceWriteToTerminal sessionId instanceName data w = w) \<and>
   (\<forall>conn. getInstanceTermConn (terms w) sessionId instanceName = Some conn \<and> data \<noteq> [] \<longrightarrow>
      InstanceWriteToTerminal sessionId instanceName data w = conn_Write conn data w) \<and>
   terms (InstanceWriteToTerminal sessionId instanceName data w) = terms w \<and>
   trace (InstanceWriteToTerminal sessionId instanceName data w) = trace w \<and>
   InstanceWriteToTerminal (Id' session) (Name i) data (snd (InstanceDelete p session i w)) =
     snd (InstanceDelete p session i w)"
proof (intro conjI impI allI)
  assume "getInstanceTermConn (terms w) sessionId instanceName = None \<or> data = []"
  then show "InstanceWriteToTerminal sessionId instanceName data w = w"
    by (auto simp: InstanceWriteToTerminal_def split: option.splits)
next
  fix conn
  assume "getInstanceTermConn (terms w) sessionId instanceName = Some conn \<and> data \<noteq> []"
  then show "InstanceWriteToTerminal sessionId instanceName data w = conn_Write conn data w"
    by (simp add: InstanceWriteToTerminal_def)
next
  show "terms (InstanceWriteToTerminal sessionId instanceName data w) = terms w"
    by (simp add: InstanceWriteToTerminal_def conn_Write_def split: option.splits)
  show "trace (InstanceWriteToTerminal sessionId instanceName data w) = trace w"
    by (simp add: InstanceWriteToTerminal_def conn_Write_def split: option.splits)
  let ?w = "snd (InstanceDelete p session i w)"
  show "InstanceWriteToTerminal (Id' session) (Name i) data ?w = ?w"
  proof (cases "getInstanceTermConn (terms w) (Id' session) (Name i)")
    case None
    then show ?thesis
      by (simp add: InstanceWriteToTerminal_def InstanceDelete_terms)
  next
    case (Some c)
    then have "closed (conns ?w c)" by (simp add: InstanceDelete_conns)
    then have "conn_Write c data ?w = ?w" by (rule conn_Write_closed)
    with Some show ?thesis
      by (simp add: InstanceWriteToTerminal_def InstanceDelete_terms)
  qed
qed

theorem InstanceWriteToTerminal_silent_witness:
  "getInstanceTermConn (terms example_world) ''aaaabbbbcccc'' ''aaaabbbb_node1'' = None \<and>
   InstanceWriteToTerminal ''aaaabbbbcccc'' ''aaaabbbb_node1'' ''ls'' example_world =
     example_world \<and>
   getInstanceTermConn (terms attached_world) ''aaaabbbbcccc'' ''aaaabbbb_node1'' = Some 0 \<and>
   ''ls'' \<noteq> [] \<and>
   InstanceWriteToTerminal ''aaaabbbbcccc'' ''aaaabbbb_node1'' ''ls'' attached_world =
     conn_Write 0 ''ls'' attached_world \<and>
   written (conns (InstanceWriteToTerminal ''aaaabbbbcccc'' ''aaaabbbb_node1'' ''ls''
                     attached_world) 0) = [''ls''] \<and>
   InstanceWriteToTerminal (Id' example_session) (Name example_node1) ''ls''
     (snd (InstanceDelete example_pwd example_session example_node1 attached_world)) =
     snd (InstanceDelete example_pwd example_session example_node1 attached_world)"
proof -
  have a: "getInstanceTermConn (terms example_world) ''aaaabbbbcccc'' ''aaaabbbb_node1'' = None"
    by (simp add: example_world_def getInstanceTermConn_def)
  have b: "written (conns (conn_Write 0 ''ls'' attached_world) 0) = [''ls'']"
    by (simp add: conn_Write_def attached_world_def example_world_def)
  from a b attached_world_conn
    InstanceWriteToTerminal_silent
      [of example_world "''aaaabbbbcccc''" "''aaaabbbb_node1''" "''ls''"
          example_session example_node1 example_pwd]
    InstanceWriteToTerminal_silent
      [of attached_world "''aaaabbbbcccc''" "''aaaabbbb_node1''" "''ls''"
          example_session example_node1 example_pwd]
  show ?thesis by simp
qed

subsection \<open>Failure of the persistence in InstanceNew\<close>

text \<open>
  C9. When the container was created and \<^verbatim>\<open>storage.InstanceCreate\<close> fails, \<^verbatim>\<open>InstanceNew\<close>
  returns that error with a nil instance; the instance stays in the instance map of the
  session under its name, and the calls made are the creation of the container, the
  start of the attach goroutine and the failed persistence: no event is emitted and
  the gauges are not updated.
\<close>

theorem InstanceNew_persistence_failure:
  assumes "allocate_hostname p session (default_image p conf0) = Return conf"
      and "8 \<le> length (Id' session)"
      and "containerName = take 8 (Id' session) @ ''_'' @ InstanceConfig.Hostname conf"
      and "opts = container_opts p session conf containerName"
      and "docker_CreateContainer p opts = (ip, None)"
      and "created = new_instance session conf opts ip containerName"
      and "storage_InstanceCreate p (Id' session) created = Some e"
  shows "InstanceNew p session conf0 w =
           (Return (None, Some e),
            session\<lparr>Instances := AList.update (Name created) created (Instances session)\<rparr>,
            w\<lparr>trace := trace w @
                 [DockerCreateContainer opts, Go_InstanceAttachTerminal created,
                  StorageInstanceCreate (Id' session) created]\<rparr>) \<and>
         map_of (AList.update (Name created) created (Instances session)) (Name created) =
           Some created"
  using assms
  by (simp add: InstanceNew_def slice_to_def Let_def record_call_def update_conv')

theorem InstanceNew_persistence_failure_witness:
  "allocate_hostname broken_create_pwd example_session
     (default_image broken_create_pwd example_conf) =
     Return (example_conf\<lparr>ImageName := ''franela/dind'',
                          InstanceConfig.Hostname := ''node3''\<rparr>) \<and>
   8 \<le> length (Id' example_session) \<and>
   fst (InstanceNew broken_create_pwd example_session example_conf example_world) =
     Return (None, Some (Error ''storage unavailable'')) \<and>
   map_option Hostname
     (map_of (Instances (fst (snd (InstanceNew broken_create_pwd example_session example_conf
                                      example_world)))) ''aaaabbbb_node3'') = Some ''node3'' \<and>
   length (trace (snd (snd (InstanceNew broken_create_pwd example_session example_conf
                               example_world)))) = 3 \<and>
   SetGauges \<notin> set (trace (snd (snd (InstanceNew broken_create_pwd example_session
                                          example_conf example_world))))"
proof -
  let ?conf = "example_conf\<lparr>ImageName := ''franela/dind'',
                            InstanceConfig.Hostname := ''node3''\<rparr>"
  let ?cn = "take 8 (Id' example_session) @ ''_'' @ InstanceConfig.Hostname ?conf"
  let ?opts = "container_opts broken_create_pwd example_session ?conf ?cn"
  let ?created = "new_instance example_session ?conf ?opts ''10.0.0.7'' ?cn"
  have a: "allocate_hostname broken_create_pwd example_session
             (default_image broken_create_pwd example_conf) = Return ?conf"
    using example_loop [of broken_create_pwd]
    by (simp add: allocate_hostname_def default_image_def example_conf_def
        broken_create_pwd_def example_pwd_def)
  have b: "8 \<le> length (Id' example_session)" by (simp add: example_session_Id)
  have c: "docker_CreateContainer broken_create_pwd ?opts = (''10.0.0.7'', None)"
    by (simp add: broken_create_pwd_def example_pwd_def)
  have d: "storage_InstanceCreate broken_create_pwd (Id' example_session) ?created =
             Some (Error ''storage unavailable'')"
    by (simp add: broken_create_pwd_def)
  have n: "Name ?created = ''aaaabbbb_node3''" "Hostname ?created = ''node3''"
    by (simp_all add: new_instance_def example_session_Id example_conf_def)
  have t: "trace example_world = []" by (simp add: example_world_def)
  from InstanceNew_persistence_failure [OF a b refl refl c refl d, of example_world]
  show ?thesis using a b n t by simp
qed

subsection \<open>Upload to a relative destination\<close>

text \<open>
  C8 at an input where the code departs from it. The working directory command exits
  with code 0 and no error, and its output \<^verbatim>\<open>/root\<close> has no colon: the split has one
  element, the index expression \<^verbatim>\<open>[1]\<close> of \<^verbatim>\<open>getInstanceCWD\<close> is out of range, and
  \<^verbatim>\<open>InstanceUploadFromReader\<close> ends in a panic instead of returning an error.
\<close>

theorem InstanceUploadFromReader_no_colon_panics:
  "fst (InstanceUploadFromReader no_colon_pwd example_node1 ''data.txt'' ''data.txt''
          example_world) = Panic IndexOutOfRange"
proof -
  have "docker_ExecAttach no_colon_pwd (Name example_node1)
          [''bash'', ''-c'', ''pwdx $(</var/run/cwd)''] = (0, None, ''/root'' @ [CHR 0x0A])"
    by (simp add: no_colon_pwd_def)
  then have "fst (getInstanceCWD no_colon_pwd example_node1 example_world) =
      Panic IndexOutOfRange"
    by (rule getInstanceCWD_no_colon) simp_all
  then show ?thesis
    by (cases "getInstanceCWD no_colon_pwd example_node1 example_world")
       (simp add: InstanceUploadFromReader_def IsAbs_def HasPrefix_def)
qed

end
